theory Spec2Isabelle
  imports Complex_Main
begin

section \<open>JavaScript values\<close>

text \<open>
  A JavaScript number is \<open>NaN\<close>, an infinity, or a finite value. \<open>Fin q\<close> carries the
  exact decimal value \<open>q\<close> of the literal that was read, where the program holds the
  IEEE double nearest to \<open>q\<close>; negative zero is \<open>Fin 0\<close>. Sign and zero tests, which
  are all that is asked of these numbers below, agree on both at the inputs evaluated.
\<close>

datatype jsnum = NaN | PosInf | NegInf | Fin rat

text \<open>
  Values as they travel through the component and into the request: an object is the
  list of its own enumerable properties in enumeration order, an array the list of its
  elements.
\<close>

datatype jsval =
    JUndefined
  | JNull
  | JBool bool
  | JNum jsnum
  | JStr string
  | JArr "jsval list"
  | JObj "(string \<times> jsval) list"

text \<open>ToBoolean, as used by \<open>&&\<close>, \<open>||\<close>, \<open>!\<close> and \<open>if\<close>.\<close>

fun truthy :: "jsval \<Rightarrow> bool" where
  "truthy JUndefined = False"
| "truthy JNull = False"
| "truthy (JBool b) = b"
| "truthy (JNum n) = (n \<noteq> NaN \<and> n \<noteq> Fin 0)"
| "truthy (JStr s) = (s \<noteq> [])"
| "truthy (JArr xs) = True"
| "truthy (JObj ps) = True"

section \<open>Strings: trim, split, parseFloat, parseInt\<close>

text \<open>
  Strings are lists of 8-bit characters. Of JavaScript's white space and line
  terminators these are in range: TAB, LF, VT, FF, CR, space and the no-break space.
\<close>

definition isWhiteSpace :: "char \<Rightarrow> bool" where
  "isWhiteSpace c = (of_char c \<in> {9, 10, 11, 12, 13, 32, 160 :: nat})"

definition trimStart :: "string \<Rightarrow> string" where
  "trimStart s = dropWhile isWhiteSpace s"

definition trim :: "string \<Rightarrow> string" where
  "trim s = rev (dropWhile isWhiteSpace (rev (dropWhile isWhiteSpace s)))"

text \<open>
  \<open>s.split(c)\<close> for a one-character separator: the pieces between the separators, in
  order. The result is never empty: a string without the separator, the empty string
  included, gives one piece.
\<close>

fun split :: "char \<Rightarrow> string \<Rightarrow> string list" where
  "split c [] = [[]]"
| "split c (x # xs) =
     (if x = c then [] # split c xs
      else (case split c xs of
              [] \<Rightarrow> [[x]]
            | w # ws \<Rightarrow> (x # w) # ws))"

definition isDigit :: "char \<Rightarrow> bool" where
  "isDigit c = (48 \<le> (of_char c :: nat) \<and> (of_char c :: nat) \<le> 57)"

definition digitVal :: "char \<Rightarrow> int" where
  "digitVal c = of_char c - 48"

definition decimalVal :: "string \<Rightarrow> int" where
  "decimalVal ds = foldl (\<lambda>n c. 10 * n + digitVal c) 0 ds"

text \<open>An optional sign: whether it is a minus, and the rest of the string.\<close>

fun signOf :: "string \<Rightarrow> bool \<times> string" where
  "signOf [] = (False, [])"
| "signOf (c # cs) =
     (if c = CHR ''-'' then (True, cs)
      else if c = CHR ''+'' then (False, cs)
      else (False, c # cs))"

text \<open>
  The exponent part at the head of a string, as a power of ten: \<open>e\<close> or \<open>E\<close>, an
  optional sign and at least one digit. Anything else is no exponent part.
\<close>

fun exponentPart :: "string \<Rightarrow> int" where
  "exponentPart [] = 0"
| "exponentPart (c # cs) =
     (if c = CHR ''e'' \<or> c = CHR ''E'' then
        (let (neg, r) = signOf cs; ds = takeWhile isDigit r
         in if ds = [] then 0
            else if neg then - decimalVal ds else decimalVal ds)
      else 0)"

definition scale10 :: "rat \<Rightarrow> int \<Rightarrow> rat" where
  "scale10 m k = (if 0 \<le> k then m * 10 ^ nat k else m / 10 ^ nat (- k))"

text \<open>
  \<open>parseFloat(s)\<close>: leading white space is skipped, then the longest prefix that is a
  decimal literal is read (a sign, then \<open>Infinity\<close>, or digits with an optional
  fraction and exponent, or a fraction with an optional exponent); what follows the
  prefix is ignored, and \<open>NaN\<close> is returned when there is no such prefix.
\<close>

definition parseFloat :: "string \<Rightarrow> jsnum" where
  "parseFloat s =
     (let (neg, u) = signOf (trimStart s)
      in if take 8 u = ''Infinity'' then (if neg then NegInf else PosInf)
         else
           (let ip = takeWhile isDigit u;
                r1 = dropWhile isDigit u;
                fp = (case r1 of [] \<Rightarrow> []
                      | c # r \<Rightarrow> if c = CHR ''.'' then takeWhile isDigit r else []);
                r2 = (case r1 of [] \<Rightarrow> []
                      | c # r \<Rightarrow> if c = CHR ''.'' then dropWhile isDigit r else r1)
            in if ip = [] \<and> fp = [] then NaN
               else
                 (let m = of_int (decimalVal (ip @ fp));
                      v = scale10 m (exponentPart r2 - int (length fp))
                  in Fin (if neg then - v else v))))"

text \<open>\<open>parseFloat(undefined)\<close> reads the string \<open>undefined\<close>: \<open>NaN\<close>.\<close>

fun parseFloatOpt :: "string option \<Rightarrow> jsnum" where
  "parseFloatOpt None = NaN"
| "parseFloatOpt (Some s) = parseFloat s"

definition hexVal :: "char \<Rightarrow> int option" where
  "hexVal c =
     (let n = (of_char c :: int)
      in if 48 \<le> n \<and> n \<le> 57 then Some (n - 48)
         else if 97 \<le> n \<and> n \<le> 102 then Some (n - 87)
         else if 65 \<le> n \<and> n \<le> 70 then Some (n - 55)
         else None)"

definition hexadecimalVal :: "string \<Rightarrow> int" where
  "hexadecimalVal ds = foldl (\<lambda>n c. 16 * n + (case hexVal c of None \<Rightarrow> 0 | Some d \<Rightarrow> d)) 0 ds"

text \<open>
  \<open>parseInt(s)\<close> with no radix: leading white space is skipped, a sign is read, a
  prefix \<open>0x\<close> or \<open>0X\<close> selects radix 16 and radix 10 is used otherwise; the longest
  run of digits of that radix is the value, and \<open>NaN\<close> is returned when it is empty.
\<close>

definition parseInt :: "string \<Rightarrow> jsnum" where
  "parseInt s =
     (let (neg, u) = signOf (trimStart s)
      in if take 2 u = ''0x'' \<or> take 2 u = ''0X'' then
           (let z = takeWhile (\<lambda>c. hexVal c \<noteq> None) (drop 2 u)
            in if z = [] then NaN
               else Fin (if neg then - of_int (hexadecimalVal z) else of_int (hexadecimalVal z)))
         else
           (let z = takeWhile isDigit u
            in if z = [] then NaN
               else Fin (if neg then - of_int (decimalVal z) else of_int (decimalVal z))))"

section \<open>Objects\<close>

text \<open>
  An array index is the canonical decimal string of an integer from 0 to
  \<open>2^32 - 2\<close>. An object enumerates its array-index keys first, in ascending numeric
  order, and then its other keys in the order of their creation.
\<close>

definition isArrayIndex :: "string \<Rightarrow> bool" where
  "isArrayIndex k =
     (k \<noteq> [] \<and> list_all isDigit k \<and> (k = ''0'' \<or> hd k \<noteq> CHR ''0'')
      \<and> decimalVal k \<le> 4294967294)"

text \<open>A new key goes before the first key that follows it in enumeration order.\<close>

fun insertKey :: "string \<Rightarrow> 'v \<Rightarrow> (string \<times> 'v) list \<Rightarrow> (string \<times> 'v) list" where
  "insertKey k v [] = [(k, v)]"
| "insertKey k v ((k', v') # ps) =
     (if isArrayIndex k \<and> (\<not> isArrayIndex k' \<or> decimalVal k < decimalVal k')
      then (k, v) # (k', v') # ps
      else (k', v') # insertKey k v ps)"

text \<open>
  \<open>obj[k] = v\<close> on a plain object: an existing property keeps its place and takes
  the new value, a new one is created.
\<close>

definition setProp :: "string \<Rightarrow> 'v \<Rightarrow> (string \<times> 'v) list \<Rightarrow> (string \<times> 'v) list" where
  "setProp k v ps =
     (if k \<in> set (map fst ps)
      then map (\<lambda>(k', v'). if k' = k then (k', v) else (k', v')) ps
      else insertKey k v ps)"

text \<open>
  \<open>every\<close> and \<open>filter\<close> of an array, and \<open>filter\<close> with the element's index
  as the callback's second argument; \<open>every\<close> stops at the first element that fails.
\<close>

fun every :: "('a \<Rightarrow> bool) \<Rightarrow> 'a list \<Rightarrow> bool" where
  "every p [] = True"
| "every p (x # xs) = (if p x then every p xs else False)"

fun filterArr :: "('a \<Rightarrow> bool) \<Rightarrow> 'a list \<Rightarrow> 'a list" where
  "filterArr p [] = []"
| "filterArr p (x # xs) = (if p x then x # filterArr p xs else filterArr p xs)"

fun filterIdx :: "('a \<Rightarrow> nat \<Rightarrow> bool) \<Rightarrow> nat \<Rightarrow> 'a list \<Rightarrow> 'a list" where
  "filterIdx p i [] = []"
| "filterIdx p i (x # xs) =
     (if p x i then x # filterIdx p (Suc i) xs else filterIdx p (Suc i) xs)"

text \<open>\<open>Object.values(row)\<close>, and the rest of a row once one key is taken out of it.\<close>

definition objectValues :: "(string \<times> jsval) list \<Rightarrow> jsval list" where
  "objectValues row = map snd row"

fun restWithout :: "string \<Rightarrow> (string \<times> jsval) list \<Rightarrow> (string \<times> jsval) list" where
  "restWithout k [] = []"
| "restWithout k ((k', v) # ps) =
     (if k' = k then restWithout k ps else (k', v) # restWithout k ps)"

section \<open>The component's state\<close>

record investment =
  commitment :: jsnum
  start_month :: jsnum

text \<open>
  The state variables of \<open>App\<close>. \<open>returnsData\<close> and \<open>result\<close> start as \<open>null\<close>;
  the text inputs hold strings.
\<close>

record app_state =
  initialCapital :: string
  publicWeightsInput :: string
  returnsData :: jsval
  csvFilename :: string
  privateCommitment :: string
  privateStartMonth :: string
  privateInvestments :: "investment list"
  result :: jsval
  loading :: bool

definition initialState :: app_state where
  "initialState =
     \<lparr> initialCapital = ''100000'',
       publicWeightsInput = ''SPY:0.6, TLT:0.4'',
       returnsData = JNull,
       csvFilename = [],
       privateCommitment = [],
       privateStartMonth = [],
       privateInvestments = [],
       result = JNull,
       loading = False \<rparr>"

section \<open>handleCSVUpload\<close>

text \<open>
  The handler proper: with no file chosen it returns at once, otherwise it records the
  file's name and hands the file to the parser.
\<close>

fun handleCSVUpload :: "string option \<Rightarrow> app_state \<Rightarrow> app_state" where
  "handleCSVUpload None st = st"
| "handleCSVUpload (Some name) st = st\<lparr>csvFilename := name\<rparr>"

text \<open>
  The parser's \<open>complete\<close> callback, on \<open>results.data\<close>: the rows of the file, each
  an object from column name to parsed value.
\<close>

definition complete_csv :: "(string \<times> jsval) list list \<Rightarrow> app_state \<Rightarrow> app_state" where
  "complete_csv data st =
     (let cleaned =
            filterArr (\<lambda>row. every (\<lambda>val. val \<noteq> JNull \<and> val \<noteq> JStr []) (objectValues row)) data;
          formatted = map (\<lambda>row. JObj (restWithout ''Date'' row)) cleaned
      in st\<lparr>returnsData := JArr formatted\<rparr>)"

section \<open>The private investments list\<close>

text \<open>The Add button: both inputs must be non-empty strings.\<close>

definition addInvestment :: "app_state \<Rightarrow> app_state" where
  "addInvestment st =
     (if privateCommitment st \<noteq> [] \<and> privateStartMonth st \<noteq> [] then
        (let newInvestment =
               \<lparr> commitment = parseFloat (privateCommitment st),
                 start_month = parseInt (privateStartMonth st) \<rparr>
         in st\<lparr> privateInvestments := privateInvestments st @ [newInvestment],
                privateCommitment := [],
                privateStartMonth := [] \<rparr>)
      else st)"

text \<open>The Remove button of the entry shown at index \<open>idx\<close>.\<close>

definition removeInvestment :: "nat \<Rightarrow> app_state \<Rightarrow> app_state" where
  "removeInvestment idx st =
     st\<lparr>privateInvestments := filterIdx (\<lambda>_ i. i \<noteq> idx) 0 (privateInvestments st)\<rparr>"

section \<open>handleSimulation\<close>

text \<open>
  One pair of the weights input: the trimmed pair is split at the colons, the first
  piece is the symbol and the second the weight, \<open>undefined\<close> when there is no colon.
  \<open>None\<close> is the TypeError of \<open>symbol.trim()\<close> on an undefined symbol.
\<close>

definition weightEntry :: "string \<Rightarrow> (string \<times> jsnum) option" where
  "weightEntry pair =
     (case split (CHR '':'') (trim pair) of
        [] \<Rightarrow> None
      | [symbol] \<Rightarrow> Some (trim symbol, parseFloatOpt None)
      | symbol # weight # _ \<Rightarrow> Some (trim symbol, parseFloatOpt (Some weight)))"

text \<open>
  \<open>weights[k] = v\<close> with a number \<open>v\<close>: the key \<open>__proto__\<close> reaches the setter
  inherited from \<open>Object.prototype\<close>, which ignores a number and creates no property.
\<close>

definition assignWeight :: "string \<Rightarrow> jsnum \<Rightarrow> (string \<times> jsnum) list \<Rightarrow> (string \<times> jsnum) list" where
  "assignWeight k v ws = (if k = ''__proto__'' then ws else setProp k v ws)"

fun buildWeights :: "string list \<Rightarrow> (string \<times> jsnum) list \<Rightarrow> (string \<times> jsnum) list option" where
  "buildWeights [] ws = Some ws"
| "buildWeights (pair # pairs) ws =
     (case weightEntry pair of
        None \<Rightarrow> None
      | Some (k, v) \<Rightarrow> buildWeights pairs (assignWeight k v ws))"

definition investmentObj :: "investment \<Rightarrow> jsval" where
  "investmentObj i =
     JObj [(''commitment'', JNum (commitment i)), (''start_month'', JNum (start_month i))]"

definition defaultReturns :: jsval where
  "defaultReturns =
     JObj [(''SPY'', JArr (replicate 120 (JNum (Fin (1 / 100))))),
           (''TLT'', JArr (replicate 120 (JNum (Fin (5 / 1000)))))]"

text \<open>The object given to \<open>axios.post\<close> as the request body.\<close>

definition requestBody :: "app_state \<Rightarrow> (string \<times> jsnum) list \<Rightarrow> jsval" where
  "requestBody st weights =
     JObj [(''initial_capital'', JNum (parseFloat (initialCapital st))),
           (''public_weights'', JObj (map (\<lambda>(k, v). (k, JNum v)) weights)),
           (''private_commitments'', JArr (map investmentObj (privateInvestments st))),
           (''returns_data'',
              if truthy (returnsData st) then returnsData st else defaultReturns)]"

text \<open>
  What the awaited call comes back with: the promise is rejected (no answer, or a
  status outside 2xx), or it resolves and \<open>response.data\<close> is the value carried.
\<close>

datatype reply = Rejected | Resolved jsval

text \<open>
  \<open>response.data.result\<close>: reading a property of \<open>undefined\<close> or \<open>null\<close> throws
  (\<open>None\<close>); an object gives the property or \<open>undefined\<close>; no other value has a
  property of that name.
\<close>

fun getResult :: "jsval \<Rightarrow> jsval option" where
  "getResult JUndefined = None"
| "getResult JNull = None"
| "getResult (JObj ps) =
     Some (case map_of ps ''result'' of None \<Rightarrow> JUndefined | Some v \<Rightarrow> v)"
| "getResult v = Some JUndefined"

datatype effect = Post string jsval | ConsoleError | Alert string

definition onError :: "effect list" where
  "onError = [ConsoleError, Alert ''Error calling backend. Check terminal/console.'']"

text \<open>
  \<open>handleSimulation\<close> up to its \<open>await\<close>: the two state updates, and the request
  body built from the state the handler was rendered with; \<open>None\<close> when building
  the weights throws, which sends nothing.
\<close>

definition beforeAwait :: "app_state \<Rightarrow> app_state \<times> jsval option" where
  "beforeAwait st =
     (let st1 = st\<lparr>loading := True, result := JNull\<rparr>
      in case buildWeights (split (CHR '','') (publicWeightsInput st)) [] of
           None \<Rightarrow> (st1, None)
         | Some weights \<Rightarrow> (st1, Some (requestBody st weights)))"

text \<open>
  The \<open>catch\<close> block and the \<open>setLoading(false)\<close> that follows it, on the state as
  it is by then.
\<close>

definition caught :: "app_state \<Rightarrow> app_state \<times> effect list" where
  "caught st = (st\<lparr>loading := False\<rparr>, onError)"

text \<open>
  \<open>handleSimulation\<close> from the moment the awaited call settles, on the state as it
  is by then: a resolved call sets the result, a rejected one and a response without
  data end in the \<open>catch\<close> block; \<open>setLoading(false)\<close> follows on both ways out.
\<close>

definition afterAwait :: "reply \<Rightarrow> app_state \<Rightarrow> app_state \<times> effect list" where
  "afterAwait rep st =
     (case rep of
        Rejected \<Rightarrow> caught st
      | Resolved data \<Rightarrow>
          (case getResult data of
             None \<Rightarrow> caught st
           | Some r \<Rightarrow> (st\<lparr>result := r, loading := False\<rparr>, [])))"

text \<open>
  A whole run of \<open>handleSimulation\<close> with nothing else happening while it waits, and
  the effects it has in order.
\<close>

definition handleSimulation :: "reply \<Rightarrow> app_state \<Rightarrow> app_state \<times> effect list" where
  "handleSimulation rep st =
     (case beforeAwait st of
        (st1, None) \<Rightarrow> caught st1
      | (st1, Some body) \<Rightarrow>
          (let (st2, effects) = afterAwait rep st1
           in (st2, Post ''http://localhost:5000/simulate'' body # effects)))"

text \<open>The render shows the metrics and the chart under \<open>result && ...\<close>.\<close>

definition showsResult :: "app_state \<Rightarrow> bool" where
  "showsResult st = truthy (result st)"

section \<open>The user's actions and the answers that arrive\<close>

text \<open>
  A file's parsing completes some time after the file was chosen, and a simulation's
  call settles some time after the button was pressed; other actions may come in
  between.
\<close>

datatype event =
    SetInitialCapital string
  | SetPublicWeightsInput string
  | SetPrivateCommitment string
  | SetPrivateStartMonth string
  | ChooseFile "string option"
  | ParseComplete "(string \<times> jsval) list list"
  | Add
  | Remove nat
  | RunSimulation
  | Settled reply

fun step :: "app_state \<Rightarrow> event \<Rightarrow> app_state" where
  "step st (SetInitialCapital v) = st\<lparr>initialCapital := v\<rparr>"
| "step st (SetPublicWeightsInput v) = st\<lparr>publicWeightsInput := v\<rparr>"
| "step st (SetPrivateCommitment v) = st\<lparr>privateCommitment := v\<rparr>"
| "step st (SetPrivateStartMonth v) = st\<lparr>privateStartMonth := v\<rparr>"
| "step st (ChooseFile f) = handleCSVUpload f st"
| "step st (ParseComplete data) = complete_csv data st"
| "step st Add = addInvestment st"
| "step st (Remove idx) = removeInvestment idx st"
| "step st RunSimulation =
     (case beforeAwait st of
        (st1, None) \<Rightarrow> fst (caught st1)
      | (st1, Some body) \<Rightarrow> st1)"
| "step st (Settled rep) = fst (afterAwait rep st)"

fun isSettled :: "event \<Rightarrow> bool" where
  "isSettled (Settled rep) = True"
| "isSettled e = False"

definition run :: "event list \<Rightarrow> app_state" where
  "run evs = foldl step initialState evs"

text \<open>The request bodies among the effects of a run, in order.\<close>

fun posted :: "effect list \<Rightarrow> jsval list" where
  "posted [] = []"
| "posted (Post url body # es) = body # posted es"
| "posted (ConsoleError # es) = posted es"
| "posted (Alert msg # es) = posted es"

text \<open>The weights object built from a weights input.\<close>

definition parsedWeights :: "string \<Rightarrow> (string \<times> jsnum) list" where
  "parsedWeights s =
     (case buildWeights (split (CHR '','') s) [] of None \<Rightarrow> [] | Some ws \<Rightarrow> ws)"

text \<open>A field of a request body, by name.\<close>

fun getField :: "string \<Rightarrow> jsval \<Rightarrow> jsval option" where
  "getField k (JObj ps) = map_of ps k"
| "getField k v = None"

section \<open>What the specification asks of the request's numbers\<close>

text \<open>
  The comparisons \<open>n > 0\<close> and \<open>n >= 0\<close> on a JavaScript number; both are false of
  \<open>NaN\<close>.
\<close>

fun isPositive :: "jsnum \<Rightarrow> bool" where
  "isPositive (Fin q) = (0 < q)"
| "isPositive PosInf = True"
| "isPositive n = False"

fun isNonNegative :: "jsnum \<Rightarrow> bool" where
  "isNonNegative (Fin q) = (0 \<le> q)"
| "isNonNegative PosInf = True"
| "isNonNegative n = False"

fun finiteValue :: "jsnum \<Rightarrow> rat option" where
  "finiteValue (Fin q) = Some q"
| "finiteValue n = None"

text \<open>
  A valid weight mapping in the specification's words: non-negative weights that sum
  to 1.0 within a tolerance of 1e-6. A mapping with a \<open>NaN\<close> or an infinite weight is
  not valid.
\<close>

definition weightsValid :: "(string \<times> jsnum) list \<Rightarrow> bool" where
  "weightsValid ws =
     (case those (map (\<lambda>(k, v). finiteValue v) ws) of
        None \<Rightarrow> False
      | Some qs \<Rightarrow> list_all (\<lambda>q. 0 \<le> q) qs \<and> \<bar>sum_list qs - 1\<bar> \<le> 1 / 1000000)"

text \<open>
  For a sequence of actions: the text last typed into the initial-capital input, and the
  rows of the last file whose parsing completed.
\<close>

definition lastCapital :: "event list \<Rightarrow> string" where
  "lastCapital evs =
     foldl (\<lambda>a e. case e of SetInitialCapital v \<Rightarrow> v | _ \<Rightarrow> a) ''100000'' evs"

definition lastParsed :: "event list \<Rightarrow> (string \<times> jsval) list list option" where
  "lastParsed evs =
     foldl (\<lambda>a e. case e of ParseComplete data \<Rightarrow> Some data | _ \<Rightarrow> a) None evs"

text \<open>
  One pair of the weights input in the words of the claim: the symbol is the text
  before the pair's first colon, trimmed, and the weight is \<open>parseFloat\<close> of the text
  between its first and second colon, \<open>NaN\<close> when the pair has no colon.
\<close>

definition pairSymbol :: "string \<Rightarrow> string" where
  "pairSymbol pair = trim (takeWhile (\<lambda>c. c \<noteq> CHR '':'') (trim pair))"

definition pairWeight :: "string \<Rightarrow> jsnum" where
  "pairWeight pair =
     (case dropWhile (\<lambda>c. c \<noteq> CHR '':'') (trim pair) of
        [] \<Rightarrow> NaN
      | colon # rest \<Rightarrow> parseFloat (takeWhile (\<lambda>c. c \<noteq> CHR '':'') rest))"

text \<open>
  The investments form in the words of the claim, as a function of the actions alone:
  the text typed last into each of the two inputs and the list of entries. Typing
  replaces a text; Add, when both texts are non-empty, appends the entry read from them
  and clears them; Remove at an index deletes the entry there and keeps the others in
  order; no other action touches the form.
\<close>

fun formStep :: "string \<times> string \<times> investment list \<Rightarrow> event \<Rightarrow> string \<times> string \<times> investment list" where
  "formStep (c, s, xs) (SetPrivateCommitment v) = (v, s, xs)"
| "formStep (c, s, xs) (SetPrivateStartMonth v) = (c, v, xs)"
| "formStep (c, s, xs) Add =
     (if c \<noteq> [] \<and> s \<noteq> []
      then ([], [], xs @ [\<lparr>commitment = parseFloat c, start_month = parseInt s\<rparr>])
      else (c, s, xs))"
| "formStep (c, s, xs) (Remove idx) = (c, s, take idx xs @ drop (Suc idx) xs)"
| "formStep (c, s, xs) e = (c, s, xs)"

definition investmentsForm :: "event list \<Rightarrow> string \<times> string \<times> investment list" where
  "investmentsForm evs = foldl formStep ([], [], []) evs"

definition typedCommitment :: "event list \<Rightarrow> string" where
  "typedCommitment evs = fst (investmentsForm evs)"

definition typedStartMonth :: "event list \<Rightarrow> string" where
  "typedStartMonth evs = fst (snd (investmentsForm evs))"

definition listedInvestments :: "event list \<Rightarrow> investment list" where
  "listedInvestments evs = snd (snd (investmentsForm evs))"

section \<open>The Portfolio Aggregator\<close>

text \<open>
  Modelled from the spec: the Portfolio Aggregator of the simulation engine (section 4.4
  of the specification) and the per-month snapshot it records (section 3) are not among
  the sources, which hold the engine's caller only. The model follows the five steps of
  section 4.4 and the shortfall policy of section 7. It is written over any number type
  with an addition, a subtraction, a zero and an order, and uses no law of arithmetic.
\<close>

record 'a sim_state =
  public_value :: 'a
  private_nav :: 'a
  cash_value :: 'a
  total_value :: 'a

text \<open>
  Modelled from the spec: what one month brings from the other components: the public
  sleeve's value change, the private sleeve's NAV change, the capital call due and the
  distributions received.
\<close>

record 'a month_flows =
  public_delta :: 'a
  nav_delta :: 'a
  capital_call :: 'a
  distribution :: 'a

text \<open>
  Modelled from the spec: the recoverable error of section 7, recorded as a warning
  with the amount that could not be funded.
\<close>

datatype 'a warning = FundingShortfallError 'a

text \<open>
  Modelled from the spec: a call is funded from cash first and the remainder from the
  public sleeve; what neither covers is a shortfall, with cash and the public sleeve
  left at zero rather than negative. The result is the cash, the public value and the
  shortfall, if any.
\<close>

definition fund_call ::
  "'a::{plus,minus,zero,ord} \<Rightarrow> 'a \<Rightarrow> 'a \<Rightarrow> 'a \<times> 'a \<times> 'a option" where
  "fund_call call cash pub =
     (if call \<le> cash then (cash - call, pub, None)
      else
        (let remainder = call - cash
         in if remainder \<le> pub then (0, pub - remainder, None)
            else (0, 0, Some (remainder - pub))))"

text \<open>
  Modelled from the spec: one month of the aggregator. Steps 1 and 2 apply the two
  sleeves' changes, step 3 funds the call (on a shortfall the private NAV reflects only
  the funded part of the call and a warning is recorded), step 4 credits the
  distributions to cash, step 5 records the snapshot with its total.
\<close>

definition aggregate_month ::
  "'a::{plus,minus,zero,ord} sim_state \<Rightarrow> 'a month_flows \<Rightarrow> 'a sim_state \<times> 'a warning list" where
  "aggregate_month s m =
     (let pub1 = public_value s + public_delta m;
          nav1 = private_nav s + nav_delta m;
          (cash2, pub2, short) = fund_call (capital_call m) (cash_value s) pub1;
          nav2 = (case short of None \<Rightarrow> nav1 | Some d \<Rightarrow> nav1 - d);
          cash3 = cash2 + distribution m
      in (\<lparr> public_value = pub2, private_nav = nav2, cash_value = cash3,
             total_value = pub2 + nav2 + cash3 \<rparr>,
          (case short of None \<Rightarrow> [] | Some d \<Rightarrow> [FundingShortfallError d])))"

text \<open>
  Modelled from the spec: a path is the sequence of the snapshots recorded month after
  month, each computed from the one before.
\<close>

fun simulate_path ::
  "'a::{plus,minus,zero,ord} sim_state \<Rightarrow> 'a month_flows list \<Rightarrow> 'a sim_state list" where
  "simulate_path s [] = []"
| "simulate_path s (m # ms) =
     (let s' = fst (aggregate_month s m) in s' # simulate_path s' ms)"

text \<open>
  Modelled from the spec: the orchestrator runs one path per sequence of monthly flows,
  each from the same starting snapshot.
\<close>

definition simulate_paths ::
  "'a::{plus,minus,zero,ord} sim_state \<Rightarrow> 'a month_flows list list \<Rightarrow> 'a sim_state list list" where
  "simulate_paths s flows = map (simulate_path s) flows"

section \<open>Facts about the array helpers\<close>

lemma every_iff: "every p xs = (\<forall>x\<in>set xs. p x)"
  by (induction xs) auto

lemma filterArr_filter: "filterArr p xs = filter p xs"
  by (induction xs) auto

lemma restWithout_filter: "restWithout k ps = filter (\<lambda>(k', v). k' \<noteq> k) ps"
  by (induction ps) auto

lemma filterIdx_skip: "i < n \<Longrightarrow> filterIdx (\<lambda>_ j. j \<noteq> i) n xs = xs"
  by (induction xs arbitrary: n) auto

lemma filterIdx_remove:
  "n \<le> i \<Longrightarrow> filterIdx (\<lambda>_ j. j \<noteq> i) n xs = take (i - n) xs @ drop (Suc (i - n)) xs"
proof (induction xs arbitrary: n)
  case Nil
  then show ?case by simp
next
  case (Cons x xs)
  show ?case
  proof (cases "n = i")
    case True
    then show ?thesis by (simp add: filterIdx_skip)
  next
    case False
    with Cons.prems have lt: "Suc n \<le> i" by simp
    then have "i - n = Suc (i - Suc n)" by simp
    with Cons.IH [OF lt] False show ?thesis by simp
  qed
qed

lemma filterIdx_subset: "set (filterIdx p n xs) \<subseteq> set xs"
  by (induction xs arbitrary: n) auto

section \<open>The request is always posted\<close>

text \<open>
  Splitting never gives an empty array, so a symbol is always a string and building the
  weights never throws: the \<open>try\<close> block always reaches the call.
\<close>

lemma split_nonempty: "split c s \<noteq> []"
  by (induction s) (auto split: list.splits)

lemma weightEntry_total: "\<exists>k v. weightEntry pair = Some (k, v)"
  using split_nonempty [of "CHR '':''" "trim pair"]
  by (auto simp: weightEntry_def split: list.splits)

lemma buildWeights_total: "\<exists>ws'. buildWeights pairs ws = Some ws'"
proof (induction pairs arbitrary: ws)
  case Nil
  then show ?case by simp
next
  case (Cons pair pairs)
  obtain k v where "weightEntry pair = Some (k, v)"
    using weightEntry_total by blast
  then show ?case using Cons.IH by simp
qed

lemma buildWeights_parsed:
  "buildWeights (split (CHR '','') s) [] = Some (parsedWeights s)"
  using buildWeights_total [of "split (CHR '','') s" "[]"]
  by (auto simp: parsedWeights_def)

lemma handleSimulation_posted:
  "posted (snd (handleSimulation rep st)) =
     [requestBody st (parsedWeights (publicWeightsInput st))]"
  by (simp add: handleSimulation_def beforeAwait_def afterAwait_def caught_def
      buildWeights_parsed onError_def Let_def split: reply.splits option.splits)

lemma run_snoc: "run (evs @ [e]) = step (run evs) e"
  by (simp add: run_def)

lemma run_Nil: "run [] = initialState"
  by (simp add: run_def)

section \<open>What the actions leave unchanged\<close>

text \<open>
  A run of \<open>handleSimulation\<close> changes \<open>result\<close> and \<open>loading\<close> only; each other
  state variable is changed by its own action only.
\<close>

lemma beforeAwait_state:
  "beforeAwait st =
     (st\<lparr>loading := True, result := JNull\<rparr>,
      Some (requestBody st (parsedWeights (publicWeightsInput st))))"
  by (simp add: beforeAwait_def buildWeights_parsed Let_def)

lemma step_RunSimulation: "step st RunSimulation = st\<lparr>loading := True, result := JNull\<rparr>"
  by (simp add: beforeAwait_state)

lemma caught_state: "\<exists>r. fst (caught st) = st\<lparr>result := r, loading := False\<rparr>"
  by (rule exI [of _ "result st"]) (simp add: caught_def)

lemma afterAwait_state:
  "\<exists>r. fst (afterAwait rep st) = st\<lparr>result := r, loading := False\<rparr>"
proof (cases rep)
  case Rejected
  then show ?thesis using caught_state [of st] by (simp add: afterAwait_def)
next
  case (Resolved data)
  then show ?thesis using caught_state [of st]
    by (cases "getResult data") (auto simp: afterAwait_def)
qed

lemma step_initialCapital:
  "initialCapital (step st e) = (case e of SetInitialCapital v \<Rightarrow> v | _ \<Rightarrow> initialCapital st)"
proof (cases e)
  case RunSimulation
  then show ?thesis by (simp add: step_RunSimulation del: step.simps)
next
  case (Settled rep)
  then show ?thesis using afterAwait_state [of rep st] by auto
next
  case (ChooseFile f)
  then show ?thesis by (cases f) simp_all
qed (simp_all add: complete_csv_def addInvestment_def removeInvestment_def Let_def)

lemma run_initialCapital: "initialCapital (run evs) = lastCapital evs"
proof (induction evs rule: rev_induct)
  case Nil
  then show ?case by (simp add: run_def lastCapital_def initialState_def)
next
  case (snoc e evs)
  then show ?case
    by (cases e) (simp_all add: run_snoc step_initialCapital lastCapital_def del: step.simps)
qed

lemma step_returnsData:
  "returnsData (step st e) =
     (case e of ParseComplete data \<Rightarrow> returnsData (complete_csv data st) | _ \<Rightarrow> returnsData st)"
proof (cases e)
  case RunSimulation
  then show ?thesis by (simp add: step_RunSimulation del: step.simps)
next
  case (Settled rep)
  then show ?thesis using afterAwait_state [of rep st] by auto
next
  case (ChooseFile f)
  then show ?thesis by (cases f) simp_all
qed (simp_all add: addInvestment_def removeInvestment_def Let_def)

lemma returnsData_complete_csv:
  "returnsData (complete_csv data st) = returnsData (complete_csv data initialState)"
  by (simp add: complete_csv_def Let_def)

lemma run_returnsData:
  "returnsData (run evs) =
     (case lastParsed evs of None \<Rightarrow> JNull
      | Some data \<Rightarrow> returnsData (complete_csv data initialState))"
proof (induction evs rule: rev_induct)
  case Nil
  then show ?case by (simp add: run_def lastParsed_def initialState_def)
next
  case (snoc e evs)
  show ?case
  proof (cases e)
    case (ParseComplete data)
    then show ?thesis
      using returnsData_complete_csv [of data "run evs"]
      by (simp add: run_snoc lastParsed_def)
  qed (use snoc in \<open>simp_all add: run_snoc step_returnsData lastParsed_def del: step.simps\<close>)
qed

lemma step_privateInvestments:
  "set (privateInvestments (step st e)) \<subseteq>
     set (privateInvestments st) \<union>
     {i. \<exists>c s. c \<noteq> [] \<and> s \<noteq> [] \<and> i = \<lparr>commitment = parseFloat c, start_month = parseInt s\<rparr>}"
proof (cases e)
  case RunSimulation
  then show ?thesis by (simp add: step_RunSimulation del: step.simps)
next
  case (Settled rep)
  then show ?thesis using afterAwait_state [of rep st] by auto
next
  case (ChooseFile f)
  then show ?thesis by (cases f) simp_all
next
  case (Remove idx)
  then show ?thesis
    using filterIdx_subset [of "\<lambda>_ i. i \<noteq> idx" 0 "privateInvestments st"]
    by (auto simp: removeInvestment_def)
next
  case Add
  then show ?thesis by (auto simp: addInvestment_def Let_def)
qed (simp_all add: complete_csv_def Let_def)

lemma run_privateInvestments:
  "i \<in> set (privateInvestments (run evs)) \<Longrightarrow>
     \<exists>c s. c \<noteq> [] \<and> s \<noteq> [] \<and> i = \<lparr>commitment = parseFloat c, start_month = parseInt s\<rparr>"
proof (induction evs arbitrary: i rule: rev_induct)
  case Nil
  then show ?case by (simp add: run_def initialState_def)
next
  case (snoc e evs)
  from snoc.prems step_privateInvestments [of "run evs" e]
  have "i \<in> set (privateInvestments (run evs)) \<or>
    (\<exists>c s. c \<noteq> [] \<and> s \<noteq> [] \<and> i = \<lparr>commitment = parseFloat c, start_month = parseInt s\<rparr>)"
    by (auto simp: run_snoc)
  with snoc.IH show ?case by blast
qed

text \<open>
  Between the press of the button and the settling of its call, nothing but another
  call's settling sets a result.
\<close>

lemma step_result_unsettled:
  "\<not> isSettled e \<Longrightarrow> result st = JNull \<Longrightarrow> result (step st e) = JNull"
proof (cases e)
  case (ChooseFile f)
  assume "result st = JNull"
  with ChooseFile show ?thesis by (cases f) simp_all
next
  case RunSimulation
  then show ?thesis by (simp add: step_RunSimulation del: step.simps)
qed (simp_all add: complete_csv_def addInvestment_def removeInvestment_def Let_def)

lemma foldl_result_unsettled:
  "list_all (\<lambda>e. \<not> isSettled e) mid \<Longrightarrow> result st = JNull \<Longrightarrow>
     result (foldl step st mid) = JNull"
proof (induction mid arbitrary: st)
  case Nil
  then show ?case by simp
next
  case (Cons e mid)
  from Cons.prems have "result (step st e) = JNull"
    by (simp add: step_result_unsettled del: step.simps)
  with Cons.IH [of "step st e"] Cons.prems(1) show ?case by simp
qed

lemma run_interleaved:
  "run (evs @ RunSimulation # mid @ [Settled rep]) =
     fst (afterAwait rep (foldl step (step (run evs) RunSimulation) mid))"
  by (simp add: run_def)

section \<open>The weights object\<close>

text \<open>The weights object is a mapping: no key occurs twice.\<close>

lemma insertKey_keys: "fst ` set (insertKey k v ps) = insert k (fst ` set ps)"
proof (induction ps)
  case Nil
  show ?case by simp
next
  case (Cons p ps)
  obtain k' v' where p: "p = (k', v')" by (cases p)
  show ?case
  proof (cases "isArrayIndex k \<and> (\<not> isArrayIndex k' \<or> decimalVal k < decimalVal k')")
    case True
    then show ?thesis by (simp add: p)
  next
    case False
    then show ?thesis using Cons.IH by (simp add: p insert_commute)
  qed
qed

lemma insertKey_distinct:
  "distinct (map fst ps) \<Longrightarrow> k \<notin> fst ` set ps \<Longrightarrow> distinct (map fst (insertKey k v ps))"
  by (induction ps) (auto simp: insertKey_keys)

lemma setProp_distinct:
  assumes "distinct (map fst ps)"
  shows "distinct (map fst (setProp k v ps))"
proof (cases "k \<in> set (map fst ps)")
  case True
  have eq: "map fst (map (\<lambda>(k', v'). if k' = k then (k', v) else (k', v')) ps) = map fst ps"
    by (induction ps) auto
  show ?thesis unfolding setProp_def using True assms eq by (simp only: if_True)
next
  case False
  with assms show ?thesis by (simp add: setProp_def insertKey_distinct)
qed

lemma buildWeights_distinct:
  "buildWeights pairs ws = Some ws' \<Longrightarrow> distinct (map fst ws) \<Longrightarrow> distinct (map fst ws')"
proof (induction pairs arbitrary: ws)
  case Nil
  then show ?case by simp
next
  case (Cons pair pairs)
  obtain k v where kv: "weightEntry pair = Some (k, v)"
    using weightEntry_total by blast
  have "distinct (map fst (assignWeight k v ws))"
    using Cons.prems(2) by (simp add: assignWeight_def setProp_distinct)
  with Cons.IH [of "assignWeight k v ws"] Cons.prems(1) kv show ?case by simp
qed

lemma parsedWeights_distinct: "distinct (map fst (parsedWeights s))"
  using buildWeights_distinct [OF buildWeights_parsed [of s]] by simp

lemma default_weights: "parsedWeights ''SPY:0.6, TLT:0.4'' = [(''SPY'', Fin (3 / 5)), (''TLT'', Fin (2 / 5))]"
  by code_simp

lemma default_valid: "weightsValid [(''SPY'', Fin (3 / 5)), (''TLT'', Fin (2 / 5))]"
  by (simp add: weightsValid_def)

section \<open>The weights object as a mapping\<close>

text \<open>
  The first two pieces of a split are the text before the first separator and the text
  between the first and the second; so each pair contributes its symbol and its weight,
  a later pair replaces an earlier one of the same symbol, and assigning to a key gives
  the updated mapping wherever the key is put in the enumeration order.
\<close>

lemma split_unfold:
  "split c s =
     takeWhile (\<lambda>x. x \<noteq> c) s #
       (case dropWhile (\<lambda>x. x \<noteq> c) s of [] \<Rightarrow> [] | sep # rest \<Rightarrow> split c rest)"
proof (induction s)
  case Nil
  show ?case by simp
next
  case (Cons x xs)
  show ?case
  proof (cases "x = c")
    case True
    then show ?thesis by simp
  next
    case False
    then show ?thesis by (subst split.simps) (simp add: Cons.IH)
  qed
qed

lemma weightEntry_pair: "weightEntry pair = Some (pairSymbol pair, pairWeight pair)"
proof -
  let ?t = "trim pair"
  let ?sym = "takeWhile (\<lambda>x. x \<noteq> CHR '':'') ?t"
  have s1: "split (CHR '':'') ?t =
      ?sym # (case dropWhile (\<lambda>x. x \<noteq> CHR '':'') ?t of [] \<Rightarrow> []
              | sep # rest \<Rightarrow> split (CHR '':'') rest)"
    by (rule split_unfold)
  show ?thesis
  proof (cases "dropWhile (\<lambda>x. x \<noteq> CHR '':'') ?t")
    case Nil
    have e: "split (CHR '':'') ?t = [?sym]"
      using s1 unfolding Nil by simp
    show ?thesis
      unfolding weightEntry_def pairSymbol_def pairWeight_def Nil e by simp
  next
    case (Cons sep rest)
    have "split (CHR '':'') rest =
        takeWhile (\<lambda>x. x \<noteq> CHR '':'') rest #
          (case dropWhile (\<lambda>x. x \<noteq> CHR '':'') rest of [] \<Rightarrow> []
           | sep # rest' \<Rightarrow> split (CHR '':'') rest')"
      by (rule split_unfold)
    then obtain more where
      e: "split (CHR '':'') ?t = ?sym # takeWhile (\<lambda>x. x \<noteq> CHR '':'') rest # more"
      using s1 unfolding Cons by simp
    show ?thesis
      unfolding weightEntry_def pairSymbol_def pairWeight_def Cons e by simp
  qed
qed

lemma map_of_insertKey:
  "k \<notin> fst ` set ps \<Longrightarrow> map_of (insertKey k v ps) = (map_of ps)(k \<mapsto> v)"
proof (induction ps)
  case Nil
  show ?case by simp
next
  case (Cons p ps)
  obtain k' v' where p: "p = (k', v')" by (cases p)
  with Cons.prems have ne: "k' \<noteq> k" and notin: "k \<notin> fst ` set ps" by auto
  show ?case
  proof (cases "isArrayIndex k \<and> (\<not> isArrayIndex k' \<or> decimalVal k < decimalVal k')")
    case True
    then show ?thesis by (simp add: p fun_eq_iff)
  next
    case False
    then show ?thesis using Cons.IH [OF notin] ne by (auto simp: p fun_upd_twist)
  qed
qed

lemma map_of_replace_at:
  "map_of (map (\<lambda>(k', v'). if k' = k then (k', v) else (k', v')) ps) a =
     (if a = k then (if k \<in> fst ` set ps then Some v else None) else map_of ps a)"
  by (induction ps) (force simp: image_iff)+

lemma map_of_replace:
  "k \<in> fst ` set ps \<Longrightarrow>
     map_of (map (\<lambda>(k', v'). if k' = k then (k', v) else (k', v')) ps) = (map_of ps)(k \<mapsto> v)"
  by (rule ext) (simp add: map_of_replace_at)

lemma map_of_setProp: "map_of (setProp k v ps) = (map_of ps)(k \<mapsto> v)"
  by (simp add: setProp_def map_of_insertKey map_of_replace)

lemma map_of_assignWeight:
  "map_of (assignWeight k v ws) =
     (if k = ''__proto__'' then map_of ws else (map_of ws)(k \<mapsto> v))"
  by (simp add: assignWeight_def map_of_setProp)

lemma map_of_buildWeights:
  "buildWeights pairs ws = Some ws' \<Longrightarrow>
     map_of ws' k =
       (if k = ''__proto__'' then map_of ws k
        else (case map_of (rev (map (\<lambda>p. (pairSymbol p, pairWeight p)) pairs)) k of
                None \<Rightarrow> map_of ws k
              | Some v \<Rightarrow> Some v))"
proof (induction pairs arbitrary: ws)
  case Nil
  then show ?case by simp
next
  case (Cons pair pairs)
  from Cons.prems
  have "buildWeights pairs (assignWeight (pairSymbol pair) (pairWeight pair) ws) = Some ws'"
    by (simp add: weightEntry_pair)
  from Cons.IH [OF this] show ?case
    by (auto simp: map_of_assignWeight map_add_def split: option.splits)
qed

lemma map_of_parsedWeights:
  "map_of (parsedWeights s) k =
     (if k = ''__proto__'' then None
      else map_of (rev (map (\<lambda>p. (pairSymbol p, pairWeight p)) (split (CHR '','') s))) k)"
  using map_of_buildWeights [OF buildWeights_parsed [of s], of k]
  by (simp split: option.splits)

section \<open>The investments form\<close>

text \<open>
  The two inputs and the list in the component's state follow the form function of the
  actions, and every entry of the list comes from a press of Add.
\<close>

lemma investmentsForm_snoc: "investmentsForm (evs @ [e]) = formStep (investmentsForm evs) e"
  by (simp add: investmentsForm_def)

lemma investmentsForm_parts:
  "investmentsForm evs = (typedCommitment evs, typedStartMonth evs, listedInvestments evs)"
  by (simp add: typedCommitment_def typedStartMonth_def listedInvestments_def)

lemma step_form:
  "(privateCommitment (step st e), privateStartMonth (step st e), privateInvestments (step st e)) =
     formStep (privateCommitment st, privateStartMonth st, privateInvestments st) e"
proof (cases e)
  case (ChooseFile f)
  then show ?thesis by (cases f) simp_all
next
  case RunSimulation
  then show ?thesis by (simp add: step_RunSimulation del: step.simps)
next
  case (Settled rep)
  then show ?thesis using afterAwait_state [of rep st] by auto
next
  case (Remove idx)
  then show ?thesis
    using filterIdx_remove [of 0 idx "privateInvestments st"]
    by (simp add: removeInvestment_def)
next
  case Add
  then show ?thesis by (simp add: addInvestment_def Let_def)
qed (simp_all add: complete_csv_def Let_def)

lemma run_form:
  "(privateCommitment (run evs), privateStartMonth (run evs), privateInvestments (run evs)) =
     investmentsForm evs"
proof (induction evs rule: rev_induct)
  case Nil
  show ?case by (simp add: run_def investmentsForm_def initialState_def)
next
  case (snoc e evs)
  show ?case
    unfolding run_snoc investmentsForm_snoc step_form snoc.IH ..
qed

lemma run_listed: "privateInvestments (run evs) = listedInvestments evs"
  using run_form [of evs] by (simp add: investmentsForm_parts)

lemma run_typed:
  "privateCommitment (run evs) = typedCommitment evs"
  "privateStartMonth (run evs) = typedStartMonth evs"
  using run_form [of evs] by (simp_all add: investmentsForm_parts)

lemma listed_origin:
  "i \<in> set (listedInvestments evs) \<Longrightarrow>
     \<exists>pre post. evs = pre @ Add # post
        \<and> typedCommitment pre \<noteq> [] \<and> typedStartMonth pre \<noteq> []
        \<and> i = \<lparr>commitment = parseFloat (typedCommitment pre),
                 start_month = parseInt (typedStartMonth pre)\<rparr>"
proof (induction evs arbitrary: i rule: rev_induct)
  case Nil
  then show ?case by (simp add: listedInvestments_def investmentsForm_def)
next
  case (snoc e evs)
  let ?c = "typedCommitment evs" and ?s = "typedStartMonth evs" and ?xs = "listedInvestments evs"
  have f: "investmentsForm (evs @ [e]) = formStep (?c, ?s, ?xs) e"
    unfolding investmentsForm_snoc
    by (simp add: typedCommitment_def typedStartMonth_def listedInvestments_def)
  have old: "\<exists>pre post. evs @ [e] = pre @ Add # post
        \<and> typedCommitment pre \<noteq> [] \<and> typedStartMonth pre \<noteq> []
        \<and> j = \<lparr>commitment = parseFloat (typedCommitment pre),
                 start_month = parseInt (typedStartMonth pre)\<rparr>"
    if "j \<in> set ?xs" for j
  proof -
    from snoc.IH [OF that] obtain pre post where
      "evs = pre @ Add # post" "typedCommitment pre \<noteq> []" "typedStartMonth pre \<noteq> []"
      "j = \<lparr>commitment = parseFloat (typedCommitment pre),
            start_month = parseInt (typedStartMonth pre)\<rparr>"
      by blast
    then have "evs @ [e] = pre @ Add # (post @ [e])" by simp
    with \<open>typedCommitment pre \<noteq> []\<close> \<open>typedStartMonth pre \<noteq> []\<close>
      \<open>j = \<lparr>commitment = parseFloat (typedCommitment pre),
            start_month = parseInt (typedStartMonth pre)\<rparr>\<close>
    show ?thesis by blast
  qed
  have "i \<in> set ?xs \<or>
      (e = Add \<and> ?c \<noteq> [] \<and> ?s \<noteq> []
        \<and> i = \<lparr>commitment = parseFloat ?c, start_month = parseInt ?s\<rparr>)"
  proof (cases e)
    case Add
    with snoc.prems f show ?thesis
      by (auto simp: listedInvestments_def split: if_splits)
  next
    case (Remove idx)
    with snoc.prems f have "i \<in> set (take idx ?xs @ drop (Suc idx) ?xs)"
      by (simp add: listedInvestments_def)
    then have "i \<in> set ?xs"
      by (auto dest: in_set_takeD in_set_dropD)
    then show ?thesis ..
  qed (use snoc.prems f in \<open>simp_all add: listedInvestments_def\<close>)
  then show ?case
  proof
    assume "i \<in> set ?xs"
    then show ?thesis by (rule old)
  next
    assume a: "e = Add \<and> ?c \<noteq> [] \<and> ?s \<noteq> []
        \<and> i = \<lparr>commitment = parseFloat ?c, start_month = parseInt ?s\<rparr>"
    then have "evs @ [e] = evs @ Add # []" by simp
    with a show ?thesis by blast
  qed
qed

lemma run_type_and_add:
  "c \<noteq> [] \<Longrightarrow> s \<noteq> [] \<Longrightarrow>
     privateInvestments (run (evs @ [SetPrivateCommitment c, SetPrivateStartMonth s, Add])) =
       privateInvestments (run evs) @ [\<lparr>commitment = parseFloat c, start_month = parseInt s\<rparr>]"
  by (simp add: run_def addInvestment_def)

lemma posted_private_commitments:
  "\<exists>body. posted (snd (handleSimulation rep st)) = [body]
     \<and> getField ''private_commitments'' body =
         Some (JArr (map (\<lambda>i. JObj [(''commitment'', JNum (commitment i)),
                                     (''start_month'', JNum (start_month i))])
                      (privateInvestments st)))"
  by (simp add: handleSimulation_posted requestBody_def investmentObj_def [abs_def])

section \<open>The rows kept from a parsed file\<close>

lemma complete_csv_rows:
  "returnsData (complete_csv data st) =
     JArr (map (\<lambda>row. JObj (filter (\<lambda>(k, v). k \<noteq> ''Date'') row))
            (filter (\<lambda>row. \<forall>v \<in> set (map snd row). v \<noteq> JNull \<and> v \<noteq> JStr []) data))"
  by (simp add: complete_csv_def Let_def every_iff filterArr_filter restWithout_filter
      objectValues_def)

section \<open>The aggregator's total\<close>

lemma aggregate_month_total:
  "total_value (fst (aggregate_month s m)) =
     public_value (fst (aggregate_month s m)) + private_nav (fst (aggregate_month s m))
       + cash_value (fst (aggregate_month s m))"
  by (simp add: aggregate_month_def Let_def split: prod.splits)

lemma simulate_path_total:
  "r \<in> set (simulate_path s ms) \<Longrightarrow>
     total_value r = public_value r + private_nav r + cash_value r"
  by (induction ms arbitrary: s) (auto simp: Let_def aggregate_month_total)

text \<open>
  Claim C1. On every path and at every month \<open>t\<close>, the recorded snapshot's total is the
  sum of its public value, its private NAV and its cash value, in the arithmetic the
  aggregator computes with, whatever the flows and whether or not a call fell short.
\<close>

theorem total_is_sum_of_parts:
  "\<forall>path \<in> set (simulate_paths s flows). \<forall>t < length path.
     total_value (path ! t) =
       public_value (path ! t) + private_nav (path ! t) + cash_value (path ! t)"
proof (intro ballI allI impI)
  fix path t
  assume p: "path \<in> set (simulate_paths s flows)" and t: "t < length path"
  from p obtain ms where "path = simulate_path s ms"
    by (auto simp: simulate_paths_def)
  with t have "path ! t \<in> set (simulate_path s ms)" by simp
  then show "total_value (path ! t) =
      public_value (path ! t) + private_nav (path ! t) + cash_value (path ! t)"
    by (rule simulate_path_total)
qed

text \<open>
  Two months of one path over the rationals: the first call is paid from cash and then
  from the public sleeve, the second falls short by 102500.
\<close>

theorem total_is_sum_of_parts_witness:
  "simulate_paths
     \<lparr>public_value = 100000::rat, private_nav = 0, cash_value = 2000, total_value = 102000\<rparr>
     [[\<lparr>public_delta = 1000, nav_delta = 5000, capital_call = 5000, distribution = 0\<rparr>,
       \<lparr>public_delta = - 500, nav_delta = 200000, capital_call = 200000, distribution = 300\<rparr>]]
   = [[\<lparr>public_value = 98000, private_nav = 5000, cash_value = 0, total_value = 103000\<rparr>,
       \<lparr>public_value = 0, private_nav = 102500, cash_value = 300, total_value = 102800\<rparr>]]
   \<and> (103000::rat) = 98000 + 5000 + 0 \<and> (102800::rat) = 0 + 102500 + 300"
proof -
  let ?s = "\<lparr>public_value = 100000::rat, private_nav = 0, cash_value = 2000,
             total_value = 102000\<rparr>"
  let ?fl = "[[\<lparr>public_delta = 1000::rat, nav_delta = 5000, capital_call = 5000,
                distribution = 0\<rparr>,
               \<lparr>public_delta = - 500, nav_delta = 200000, capital_call = 200000,
                distribution = 300\<rparr>]]"
  let ?p = "[\<lparr>public_value = 98000::rat, private_nav = 5000, cash_value = 0,
              total_value = 103000\<rparr>,
            \<lparr>public_value = 0, private_nav = 102500, cash_value = 300,
              total_value = 102800\<rparr>]"
  have e: "simulate_paths ?s ?fl = [?p]"
    by (simp add: simulate_paths_def aggregate_month_def fund_call_def Let_def)
  have "\<forall>path \<in> set [?p]. \<forall>t < length path.
     total_value (path ! t) =
       public_value (path ! t) + private_nav (path ! t) + cash_value (path ! t)"
    using total_is_sum_of_parts [of ?s ?fl] unfolding e .
  then have "total_value (?p ! 0) =
      public_value (?p ! 0) + private_nav (?p ! 0) + cash_value (?p ! 0)"
    and "total_value (?p ! 1) =
      public_value (?p ! 1) + private_nav (?p ! 1) + cash_value (?p ! 1)"
    by simp_all
  with e show ?thesis by simp
qed

section \<open>The uploaded rows\<close>

text \<open>
  Claim C10. When a file has been parsed, \<open>returnsData\<close> becomes exactly the rows in
  which every column value is neither \<open>null\<close> nor the empty string, in file order, each
  without its \<open>Date\<close> column; the other rows are dropped.
\<close>

theorem csv_rows_kept:
  "returnsData (complete_csv data st) =
     JArr (map (\<lambda>row. JObj (filter (\<lambda>(k, v). k \<noteq> ''Date'') row))
            (filter (\<lambda>row. \<forall>v \<in> set (map snd row). v \<noteq> JNull \<and> v \<noteq> JStr []) data))"
  by (rule complete_csv_rows)

text \<open>
  Five rows: a null, an empty string and an empty date each drop a row; \<open>0\<close> and
  \<open>false\<close> are values like any other.
\<close>

theorem csv_rows_kept_witness:
  "returnsData (complete_csv
      [[(''Date'', JStr ''2020-01''), (''SPY'', JNum (Fin (1 / 100))), (''TLT'', JNum (Fin 0))],
       [(''Date'', JStr ''2020-02''), (''SPY'', JNull), (''TLT'', JNum (Fin (1 / 50)))],
       [(''Date'', JStr ''2020-03''), (''SPY'', JNum (Fin (- 1 / 20))), (''TLT'', JStr [])],
       [(''Date'', JStr []), (''SPY'', JNum (Fin 1)), (''TLT'', JNum (Fin 2))],
       [(''Date'', JStr ''2020-05''), (''SPY'', JNum (Fin (3 / 100))), (''TLT'', JBool False)]]
      initialState)
   = JArr [JObj [(''SPY'', JNum (Fin (1 / 100))), (''TLT'', JNum (Fin 0))],
           JObj [(''SPY'', JNum (Fin (3 / 100))), (''TLT'', JBool False)]]"
  by (simp add: csv_rows_kept)

section \<open>Adding and removing investments\<close>

text \<open>
  Claim C9. Add, when both inputs are filled in, appends the new entry at the end of the
  list (and leaves the state alone otherwise); Remove at index \<open>i\<close> deletes the entry at
  index \<open>i\<close> and keeps the others in order; no other action changes the list, so after
  any sequence of actions it is the list of the entries added and not removed, in the
  order of their adding; and the request's \<open>private_commitments\<close> is the array of
  these entries in that order, each an object with the entry's \<open>commitment\<close> and
  \<open>start_month\<close>.
\<close>

theorem investments_list_ordered:
  "(privateCommitment st \<noteq> [] \<and> privateStartMonth st \<noteq> [] \<longrightarrow>
      privateInvestments (addInvestment st) =
        privateInvestments st @
          [\<lparr>commitment = parseFloat (privateCommitment st),
            start_month = parseInt (privateStartMonth st)\<rparr>])
   \<and> (\<not> (privateCommitment st \<noteq> [] \<and> privateStartMonth st \<noteq> []) \<longrightarrow>
        addInvestment st = st)
   \<and> privateInvestments (removeInvestment i st) =
        take i (privateInvestments st) @ drop (Suc i) (privateInvestments st)
   \<and> (\<exists>body. posted (snd (handleSimulation rep st)) = [body]
        \<and> getField ''private_commitments'' body =
            Some (JArr (map (\<lambda>i. JObj [(''commitment'', JNum (commitment i)),
                                        (''start_month'', JNum (start_month i))])
                         (privateInvestments st))))
   \<and> privateInvestments (run evs) = listedInvestments evs
   \<and> (\<exists>body. posted (snd (handleSimulation rep (run evs))) = [body]
        \<and> getField ''private_commitments'' body =
            Some (JArr (map (\<lambda>i. JObj [(''commitment'', JNum (commitment i)),
                                        (''start_month'', JNum (start_month i))])
                         (listedInvestments evs))))"
proof (intro conjI impI)
  assume "privateCommitment st \<noteq> [] \<and> privateStartMonth st \<noteq> []"
  then show "privateInvestments (addInvestment st) =
        privateInvestments st @
          [\<lparr>commitment = parseFloat (privateCommitment st),
            start_month = parseInt (privateStartMonth st)\<rparr>]"
    by (simp add: addInvestment_def)
next
  assume "\<not> (privateCommitment st \<noteq> [] \<and> privateStartMonth st \<noteq> [])"
  then show "addInvestment st = st"
    by (auto simp: addInvestment_def)
next
  show "privateInvestments (removeInvestment i st) =
        take i (privateInvestments st) @ drop (Suc i) (privateInvestments st)"
    using filterIdx_remove [of 0 i "privateInvestments st"]
    by (simp add: removeInvestment_def)
next
  show "\<exists>body. posted (snd (handleSimulation rep st)) = [body]
        \<and> getField ''private_commitments'' body =
            Some (JArr (map (\<lambda>i. JObj [(''commitment'', JNum (commitment i)),
                                        (''start_month'', JNum (start_month i))])
                         (privateInvestments st)))"
    by (rule posted_private_commitments)
next
  show "privateInvestments (run evs) = listedInvestments evs"
    by (rule run_listed)
next
  show "\<exists>body. posted (snd (handleSimulation rep (run evs))) = [body]
        \<and> getField ''private_commitments'' body =
            Some (JArr (map (\<lambda>i. JObj [(''commitment'', JNum (commitment i)),
                                        (''start_month'', JNum (start_month i))])
                         (listedInvestments evs)))"
    using posted_private_commitments [of rep "run evs"] by (simp add: run_listed)
qed

text \<open>
  With one investment listed and \<open>700.5\<close> at month \<open>0\<close> typed in, Add puts the new
  entry second, and Remove at index 0 then leaves it alone. With nothing typed in, as
  in the initial state, Add changes nothing. The same as a sequence of actions, with a
  file chosen and parsed and a simulation run in between: the list, and the request
  sent with it.
\<close>

theorem investments_list_ordered_witness:
  "privateCommitment
     (initialState\<lparr>privateInvestments := [\<lparr>commitment = Fin 5000, start_month = Fin 3\<rparr>],
        privateCommitment := ''700.5'', privateStartMonth := ''0''\<rparr>) \<noteq> []
   \<and> privateStartMonth
     (initialState\<lparr>privateInvestments := [\<lparr>commitment = Fin 5000, start_month = Fin 3\<rparr>],
        privateCommitment := ''700.5'', privateStartMonth := ''0''\<rparr>) \<noteq> []
   \<and> privateInvestments (addInvestment
     (initialState\<lparr>privateInvestments := [\<lparr>commitment = Fin 5000, start_month = Fin 3\<rparr>],
        privateCommitment := ''700.5'', privateStartMonth := ''0''\<rparr>))
     = [\<lparr>commitment = Fin 5000, start_month = Fin 3\<rparr>,
        \<lparr>commitment = Fin (1401 / 2), start_month = Fin 0\<rparr>]
   \<and> privateInvestments (removeInvestment 0 (addInvestment
     (initialState\<lparr>privateInvestments := [\<lparr>commitment = Fin 5000, start_month = Fin 3\<rparr>],
        privateCommitment := ''700.5'', privateStartMonth := ''0''\<rparr>)))
     = [\<lparr>commitment = Fin (1401 / 2), start_month = Fin 0\<rparr>]
   \<and> \<not> (privateCommitment initialState \<noteq> [] \<and> privateStartMonth initialState \<noteq> [])
   \<and> addInvestment initialState = initialState
   \<and> privateInvestments
       (run [SetPrivateCommitment ''5000'', SetPrivateStartMonth ''3'', Add,
             ChooseFile (Some ''returns.csv''), ParseComplete [],
             SetPrivateCommitment ''700.5'', SetPrivateStartMonth ''0'', Add,
             RunSimulation, Settled Rejected, Add, Remove 0])
     = [\<lparr>commitment = Fin (1401 / 2), start_month = Fin 0\<rparr>]
   \<and> (\<exists>body. posted (snd (handleSimulation Rejected
         (run [SetPrivateCommitment ''5000'', SetPrivateStartMonth ''3'', Add,
               ChooseFile (Some ''returns.csv''), ParseComplete [],
               SetPrivateCommitment ''700.5'', SetPrivateStartMonth ''0'', Add,
               RunSimulation, Settled Rejected, Add, Remove 0]))) = [body]
        \<and> getField ''private_commitments'' body =
            Some (JArr [JObj [(''commitment'', JNum (Fin (1401 / 2))),
                              (''start_month'', JNum (Fin 0))]]))"
proof -
  let ?st = "initialState\<lparr>privateInvestments := [\<lparr>commitment = Fin 5000, start_month = Fin 3\<rparr>],
        privateCommitment := ''700.5'', privateStartMonth := ''0''\<rparr>"
  let ?evs = "[SetPrivateCommitment ''5000'', SetPrivateStartMonth ''3'', Add,
             ChooseFile (Some ''returns.csv''), ParseComplete [],
             SetPrivateCommitment ''700.5'', SetPrivateStartMonth ''0'', Add,
             RunSimulation, Settled Rejected, Add, Remove 0]"
  have g: "privateCommitment ?st \<noteq> [] \<and> privateStartMonth ?st \<noteq> []"
    by simp
  have pf: "parseFloat ''700.5'' = Fin (1401 / 2)" by code_simp
  have pi: "parseInt ''0'' = Fin 0" by code_simp
  have pf': "parseFloat ''5000'' = Fin 5000" by code_simp
  have pi': "parseInt ''3'' = Fin 3" by code_simp
  have a: "privateInvestments (addInvestment ?st) =
      [\<lparr>commitment = Fin 5000, start_month = Fin 3\<rparr>,
       \<lparr>commitment = Fin (1401 / 2), start_month = Fin 0\<rparr>]"
    using investments_list_ordered [where st = ?st and i = 0 and rep = Rejected and evs = "[]"] g
    by (simp add: pf pi)
  have r: "privateInvestments (removeInvestment 0 (addInvestment ?st)) =
      [\<lparr>commitment = Fin (1401 / 2), start_month = Fin 0\<rparr>]"
    using investments_list_ordered
      [where st = "addInvestment ?st" and i = 0 and rep = Rejected and evs = "[]"]
    by (simp add: a)
  have n: "\<not> (privateCommitment initialState \<noteq> [] \<and> privateStartMonth initialState \<noteq> [])"
    by (simp add: initialState_def)
  have u: "addInvestment initialState = initialState"
    using investments_list_ordered
      [where st = initialState and i = 0 and rep = Rejected and evs = "[]"] n
    by blast
  have l: "listedInvestments ?evs = [\<lparr>commitment = Fin (1401 / 2), start_month = Fin 0\<rparr>]"
    by (simp add: listedInvestments_def investmentsForm_def pf pi pf' pi')
  note t = investments_list_ordered
      [where st = initialState and i = 0 and rep = Rejected and evs = ?evs]
  from t have e: "privateInvestments (run ?evs) =
      [\<lparr>commitment = Fin (1401 / 2), start_month = Fin 0\<rparr>]"
    unfolding l by blast
  from t have b: "\<exists>body. posted (snd (handleSimulation Rejected (run ?evs))) = [body]
        \<and> getField ''private_commitments'' body =
            Some (JArr [JObj [(''commitment'', JNum (Fin (1401 / 2))),
                              (''start_month'', JNum (Fin 0))]])"
    unfolding l by simp
  from g a r n u e b show ?thesis by blast
qed

section \<open>The fields of the request\<close>

text \<open>
  Claim C2, as amended. Every request \<open>handleSimulation\<close> sends is an object with
  exactly the four fields \<open>initial_capital\<close>, \<open>public_weights\<close>,
  \<open>private_commitments\<close> and \<open>returns_data\<close>; it has no \<open>horizon_months\<close>,
  \<open>num_paths\<close> or \<open>rebalancing_policy\<close> field.
\<close>

theorem request_has_four_fields:
  "\<exists>fields. posted (snd (handleSimulation rep st)) = [JObj fields]
     \<and> map fst fields =
         [''initial_capital'', ''public_weights'', ''private_commitments'', ''returns_data'']
     \<and> getField ''horizon_months'' (JObj fields) = None
     \<and> getField ''num_paths'' (JObj fields) = None
     \<and> getField ''rebalancing_policy'' (JObj fields) = None"
  by (simp add: handleSimulation_posted requestBody_def)

text \<open>
  Against claim C2 as stated: the request sent from the initial state has none of the
  three fields.
\<close>

theorem request_lacks_engine_fields:
  "posted (snd (handleSimulation Rejected initialState)) =
     [requestBody initialState [(''SPY'', Fin (3 / 5)), (''TLT'', Fin (2 / 5))]]
   \<and> getField ''horizon_months''
        (requestBody initialState [(''SPY'', Fin (3 / 5)), (''TLT'', Fin (2 / 5))]) = None
   \<and> getField ''num_paths''
        (requestBody initialState [(''SPY'', Fin (3 / 5)), (''TLT'', Fin (2 / 5))]) = None
   \<and> getField ''rebalancing_policy''
        (requestBody initialState [(''SPY'', Fin (3 / 5)), (''TLT'', Fin (2 / 5))]) = None"
  by (simp add: handleSimulation_posted default_weights requestBody_def initialState_def)

section \<open>The returns data sent\<close>

text \<open>
  Claim C3, as amended. The \<open>returns_data\<close> field is present in every request. Until
  a file has been parsed it is the fixed mapping of \<open>SPY\<close> to 120 returns of 0.01 and
  of \<open>TLT\<close> to 120 returns of 0.005; afterwards it is the array of the rows kept from
  the file parsed last, each row an object from column name to value without its
  \<open>Date\<close> column, in file order.
\<close>

theorem returns_data_always_sent:
  "\<exists>body. posted (snd (handleSimulation rep (run evs))) = [body]
     \<and> getField ''returns_data'' body =
         Some (case lastParsed evs of
                 None \<Rightarrow> defaultReturns
               | Some data \<Rightarrow>
                   JArr (map (\<lambda>row. JObj (filter (\<lambda>(k, v). k \<noteq> ''Date'') row))
                          (filter (\<lambda>row. \<forall>v \<in> set (map snd row). v \<noteq> JNull \<and> v \<noteq> JStr [])
                             data)))"
proof (cases "lastParsed evs")
  case None
  then show ?thesis
    by (simp add: handleSimulation_posted requestBody_def run_returnsData)
next
  case (Some data)
  then show ?thesis
    by (simp add: handleSimulation_posted requestBody_def run_returnsData complete_csv_rows)
qed

text \<open>A file of two rows, the second with a missing value.\<close>

theorem returns_data_always_sent_witness:
  "\<exists>body. posted (snd (handleSimulation Rejected
       (run [ChooseFile (Some ''returns.csv''),
             ParseComplete
               [[(''Date'', JStr ''2020-01''), (''SPY'', JNum (Fin (1 / 100)))],
                [(''Date'', JStr ''2020-02''), (''SPY'', JNull)]]]))) = [body]
     \<and> getField ''returns_data'' body = Some (JArr [JObj [(''SPY'', JNum (Fin (1 / 100)))]])"
  using returns_data_always_sent [of Rejected
       "[ChooseFile (Some ''returns.csv''),
             ParseComplete
               [[(''Date'', JStr ''2020-01''), (''SPY'', JNum (Fin (1 / 100)))],
                [(''Date'', JStr ''2020-02''), (''SPY'', JNull)]]]"]
  by (simp add: lastParsed_def)

text \<open>
  Against claim C3 as stated: with nothing uploaded the field is not absent but holds
  the default series, and after an upload it is an array of row objects, not a mapping
  from asset to a sequence of returns.
\<close>

theorem returns_data_present_and_row_shaped:
  "posted (snd (handleSimulation Rejected initialState)) =
     [requestBody initialState [(''SPY'', Fin (3 / 5)), (''TLT'', Fin (2 / 5))]]
   \<and> getField ''returns_data''
        (requestBody initialState [(''SPY'', Fin (3 / 5)), (''TLT'', Fin (2 / 5))]) =
       Some (JObj [(''SPY'', JArr (replicate 120 (JNum (Fin (1 / 100))))),
                   (''TLT'', JArr (replicate 120 (JNum (Fin (5 / 1000)))))])
   \<and> posted (snd (handleSimulation Rejected
        (run [ChooseFile (Some ''returns.csv''),
              ParseComplete
                [[(''Date'', JStr ''2020-01''), (''SPY'', JNum (Fin (1 / 100)))],
                 [(''Date'', JStr ''2020-02''), (''SPY'', JNum (Fin (1 / 50)))]]]))) =
     [requestBody
        (run [ChooseFile (Some ''returns.csv''),
              ParseComplete
                [[(''Date'', JStr ''2020-01''), (''SPY'', JNum (Fin (1 / 100)))],
                 [(''Date'', JStr ''2020-02''), (''SPY'', JNum (Fin (1 / 50)))]]])
        [(''SPY'', Fin (3 / 5)), (''TLT'', Fin (2 / 5))]]
   \<and> getField ''returns_data''
        (requestBody
          (run [ChooseFile (Some ''returns.csv''),
              ParseComplete
                [[(''Date'', JStr ''2020-01''), (''SPY'', JNum (Fin (1 / 100)))],
                 [(''Date'', JStr ''2020-02''), (''SPY'', JNum (Fin (1 / 50)))]]])
          [(''SPY'', Fin (3 / 5)), (''TLT'', Fin (2 / 5))]) =
       Some (JArr [JObj [(''SPY'', JNum (Fin (1 / 100)))], JObj [(''SPY'', JNum (Fin (1 / 50)))]])"
  by (simp add: handleSimulation_posted default_weights requestBody_def run_def
        initialState_def complete_csv_def defaultReturns_def objectValues_def)

section \<open>The weights sent\<close>

text \<open>
  Claim C4, as amended. Whatever the weights input, \<open>handleSimulation\<close> posts one
  request and rejects nothing. Its \<open>public_weights\<close> is a mapping with one entry per
  symbol: for each comma-separated pair, the symbol (the trimmed text before the pair's
  first colon) is mapped to \<open>parseFloat\<close> of the pair's weight text (the text between
  its first and second colon; \<open>NaN\<close> when there is no colon), the last pair of a symbol
  replacing the earlier ones; a pair whose symbol is \<open>__proto__\<close> gives no entry.
  Neither the sign of a weight nor the sum is looked at. The default input gives 0.6
  and 0.4, which are non-negative and sum to 1.0 within 1e-6.
\<close>

theorem weights_sent_unchecked:
  "(\<exists>body. posted (snd (handleSimulation rep st)) = [body]
      \<and> getField ''public_weights'' body =
          Some (JObj (map (\<lambda>(k, v). (k, JNum v)) (parsedWeights (publicWeightsInput st)))))
   \<and> distinct (map fst (parsedWeights (publicWeightsInput st)))
   \<and> (\<forall>k. map_of (parsedWeights (publicWeightsInput st)) k =
         (if k = ''__proto__'' then None
          else map_of (rev (map (\<lambda>p. (pairSymbol p, pairWeight p))
                             (split (CHR '','') (publicWeightsInput st)))) k))
   \<and> parsedWeights (publicWeightsInput initialState) =
       [(''SPY'', Fin (3 / 5)), (''TLT'', Fin (2 / 5))]
   \<and> weightsValid [(''SPY'', Fin (3 / 5)), (''TLT'', Fin (2 / 5))]"
  by (simp add: handleSimulation_posted requestBody_def parsedWeights_distinct default_weights
      default_valid initialState_def map_of_parsedWeights)

text \<open>
  A negative weight, a pair for \<open>__proto__\<close>, a pair without a colon and a symbol
  given twice: the negative weight is sent as it is, \<open>__proto__\<close> has no entry, the
  pair without a colon has the weight \<open>NaN\<close>, and the later weight of \<open>TLT\<close> stands.
\<close>

theorem weights_sent_unchecked_witness:
  "map_of (parsedWeights ''SPY:-0.5, __proto__:1, TLT:0.2, GLD, TLT : 1.5'') ''SPY'' =
     Some (Fin (- 1 / 2))
   \<and> map_of (parsedWeights ''SPY:-0.5, __proto__:1, TLT:0.2, GLD, TLT : 1.5'') ''__proto__'' =
     None
   \<and> map_of (parsedWeights ''SPY:-0.5, __proto__:1, TLT:0.2, GLD, TLT : 1.5'') ''GLD'' =
     Some NaN
   \<and> map_of (parsedWeights ''SPY:-0.5, __proto__:1, TLT:0.2, GLD, TLT : 1.5'') ''TLT'' =
     Some (Fin (3 / 2))"
proof -
  let ?s = "''SPY:-0.5, __proto__:1, TLT:0.2, GLD, TLT : 1.5''"
  let ?st = "initialState\<lparr>publicWeightsInput := ?s\<rparr>"
  have p: "map (\<lambda>p. (pairSymbol p, pairWeight p)) (split (CHR '','') ?s) =
      [(''SPY'', Fin (- 1 / 2)), (''__proto__'', Fin 1), (''TLT'', Fin (1 / 5)),
       (''GLD'', NaN), (''TLT'', Fin (3 / 2))]"
    by code_simp
  have i: "publicWeightsInput ?st = ?s" by simp
  from weights_sent_unchecked [of Rejected ?st]
  have "\<forall>k. map_of (parsedWeights ?s) k =
         (if k = ''__proto__'' then None
          else map_of (rev [(''SPY'', Fin (- 1 / 2)), (''__proto__'', Fin 1),
                            (''TLT'', Fin (1 / 5)), (''GLD'', NaN), (''TLT'', Fin (3 / 2))]) k)"
    unfolding i p by blast
  then show ?thesis by simp
qed

text \<open>
  Against claim C4 as stated: weights 0.6 and 0.9 sum to 1.5, and the request is
  posted with them.
\<close>

theorem invalid_weights_posted:
  "posted (snd (handleSimulation Rejected
      (run [SetPublicWeightsInput ''SPY:0.6, TLT:0.9'']))) =
     [requestBody (run [SetPublicWeightsInput ''SPY:0.6, TLT:0.9''])
        [(''SPY'', Fin (3 / 5)), (''TLT'', Fin (9 / 10))]]
   \<and> getField ''public_weights''
        (requestBody (run [SetPublicWeightsInput ''SPY:0.6, TLT:0.9''])
           [(''SPY'', Fin (3 / 5)), (''TLT'', Fin (9 / 10))]) =
       Some (JObj [(''SPY'', JNum (Fin (3 / 5))), (''TLT'', JNum (Fin (9 / 10)))])
   \<and> \<not> weightsValid [(''SPY'', Fin (3 / 5)), (''TLT'', Fin (9 / 10))]"
proof -
  have "parsedWeights ''SPY:0.6, TLT:0.9'' = [(''SPY'', Fin (3 / 5)), (''TLT'', Fin (9 / 10))]"
    by code_simp
  then show ?thesis
    by (simp add: handleSimulation_posted requestBody_def run_def initialState_def
        weightsValid_def)
qed

section \<open>The investments sent\<close>

text \<open>
  Claim C6, as amended. After any sequence of actions, every entry of the list comes
  from a press of Add at which the texts typed into the two inputs were both non-empty,
  and it has as commitment \<open>parseFloat\<close> of the commitment text and as start month
  \<open>parseInt\<close> of the start-month text typed then. Nothing else is asked of the texts:
  typing any two non-empty texts and pressing Add appends the entry read from them,
  whatever its signs. The inputs show the texts so typed, and the request's
  \<open>private_commitments\<close> is the array of the entries, each an object with the entry's
  \<open>commitment\<close> and \<open>start_month\<close>.
\<close>

theorem investments_as_typed:
  "(\<forall>i \<in> set (privateInvestments (run evs)).
      \<exists>pre post. evs = pre @ Add # post
        \<and> typedCommitment pre \<noteq> [] \<and> typedStartMonth pre \<noteq> []
        \<and> i = \<lparr>commitment = parseFloat (typedCommitment pre),
                 start_month = parseInt (typedStartMonth pre)\<rparr>)
   \<and> privateCommitment (run evs) = typedCommitment evs
   \<and> privateStartMonth (run evs) = typedStartMonth evs
   \<and> typedCommitment (evs @ [SetPrivateCommitment c]) = c
   \<and> typedStartMonth (evs @ [SetPrivateStartMonth s]) = s
   \<and> (c \<noteq> [] \<and> s \<noteq> [] \<longrightarrow>
        privateInvestments (run (evs @ [SetPrivateCommitment c, SetPrivateStartMonth s, Add])) =
          privateInvestments (run evs) @
            [\<lparr>commitment = parseFloat c, start_month = parseInt s\<rparr>])
   \<and> (\<exists>body. posted (snd (handleSimulation rep (run evs))) = [body]
        \<and> getField ''private_commitments'' body =
            Some (JArr (map (\<lambda>i. JObj [(''commitment'', JNum (commitment i)),
                                        (''start_month'', JNum (start_month i))])
                         (privateInvestments (run evs)))))"
proof (intro conjI ballI impI)
  fix i
  assume "i \<in> set (privateInvestments (run evs))"
  then have "i \<in> set (listedInvestments evs)" by (simp add: run_listed)
  then show "\<exists>pre post. evs = pre @ Add # post
        \<and> typedCommitment pre \<noteq> [] \<and> typedStartMonth pre \<noteq> []
        \<and> i = \<lparr>commitment = parseFloat (typedCommitment pre),
                 start_month = parseInt (typedStartMonth pre)\<rparr>"
    by (rule listed_origin)
next
  show "privateCommitment (run evs) = typedCommitment evs"
    by (rule run_typed)
  show "privateStartMonth (run evs) = typedStartMonth evs"
    by (rule run_typed)
next
  obtain c0 s0 xs where f: "investmentsForm evs = (c0, s0, xs)"
    by (cases "investmentsForm evs")
  show "typedCommitment (evs @ [SetPrivateCommitment c]) = c"
    by (simp add: typedCommitment_def investmentsForm_snoc f)
  show "typedStartMonth (evs @ [SetPrivateStartMonth s]) = s"
    by (simp add: typedStartMonth_def investmentsForm_snoc f)
next
  assume "c \<noteq> [] \<and> s \<noteq> []"
  then show "privateInvestments (run (evs @ [SetPrivateCommitment c, SetPrivateStartMonth s, Add])) =
          privateInvestments (run evs) @
            [\<lparr>commitment = parseFloat c, start_month = parseInt s\<rparr>]"
    by (simp add: run_type_and_add)
next
  show "\<exists>body. posted (snd (handleSimulation rep (run evs))) = [body]
        \<and> getField ''private_commitments'' body =
            Some (JArr (map (\<lambda>i. JObj [(''commitment'', JNum (commitment i)),
                                        (''start_month'', JNum (start_month i))])
                         (privateInvestments (run evs))))"
    by (rule posted_private_commitments)
qed

text \<open>
  One investment of 5000 at month 3, added by typing the two texts and pressing Add;
  then a second one of 250 at month 7.
\<close>

theorem investments_as_typed_witness:
  "privateInvestments (run [SetPrivateCommitment ''5000'', SetPrivateStartMonth ''3'', Add]) =
     [\<lparr>commitment = Fin 5000, start_month = Fin 3\<rparr>]
   \<and> (\<exists>pre post.
        [SetPrivateCommitment ''5000'', SetPrivateStartMonth ''3'', Add] = pre @ Add # post
        \<and> typedCommitment pre \<noteq> [] \<and> typedStartMonth pre \<noteq> []
        \<and> \<lparr>commitment = Fin 5000, start_month = Fin 3\<rparr> =
            \<lparr>commitment = parseFloat (typedCommitment pre),
             start_month = parseInt (typedStartMonth pre)\<rparr>)
   \<and> ''250'' \<noteq> [] \<and> ''7'' \<noteq> []
   \<and> privateInvestments
       (run ([SetPrivateCommitment ''5000'', SetPrivateStartMonth ''3'', Add]
             @ [SetPrivateCommitment ''250'', SetPrivateStartMonth ''7'', Add])) =
     [\<lparr>commitment = Fin 5000, start_month = Fin 3\<rparr>,
      \<lparr>commitment = Fin 250, start_month = Fin 7\<rparr>]"
proof -
  let ?evs = "[SetPrivateCommitment ''5000'', SetPrivateStartMonth ''3'', Add]"
  have pf: "parseFloat ''5000'' = Fin 5000" by code_simp
  have pi: "parseInt ''3'' = Fin 3" by code_simp
  have pf': "parseFloat ''250'' = Fin 250" by code_simp
  have pi': "parseInt ''7'' = Fin 7" by code_simp
  have e: "privateInvestments (run ?evs) = [\<lparr>commitment = Fin 5000, start_month = Fin 3\<rparr>]"
    by (simp add: run_def addInvestment_def initialState_def pf pi)
  have n: "''250'' \<noteq> [] \<and> ''7'' \<noteq> []" by simp
  note t = investments_as_typed [where evs = ?evs and c = "''250''" and s = "''7''" and rep = Rejected]
  from t have o: "\<exists>pre post. ?evs = pre @ Add # post
        \<and> typedCommitment pre \<noteq> [] \<and> typedStartMonth pre \<noteq> []
        \<and> \<lparr>commitment = Fin 5000, start_month = Fin 3\<rparr> =
            \<lparr>commitment = parseFloat (typedCommitment pre),
             start_month = parseInt (typedStartMonth pre)\<rparr>"
    unfolding e by simp
  from t n have a: "privateInvestments
       (run (?evs @ [SetPrivateCommitment ''250'', SetPrivateStartMonth ''7'', Add])) =
     [\<lparr>commitment = Fin 5000, start_month = Fin 3\<rparr>,
      \<lparr>commitment = Fin 250, start_month = Fin 7\<rparr>]"
    unfolding e pf' pi' by simp
  from e o n a show ?thesis by blast
qed

text \<open>
  Against claim C6 as stated: a commitment of \<open>-5\<close> at month \<open>-1\<close> passes the Add
  button's test and is sent.
\<close>

theorem negative_investment_sent:
  "privateInvestments (run [SetPrivateCommitment ''-5'', SetPrivateStartMonth ''-1'', Add]) =
     [\<lparr>commitment = Fin (- 5), start_month = Fin (- 1)\<rparr>]
   \<and> posted (snd (handleSimulation Rejected
        (run [SetPrivateCommitment ''-5'', SetPrivateStartMonth ''-1'', Add]))) =
       [requestBody (run [SetPrivateCommitment ''-5'', SetPrivateStartMonth ''-1'', Add])
          [(''SPY'', Fin (3 / 5)), (''TLT'', Fin (2 / 5))]]
   \<and> getField ''private_commitments''
        (requestBody (run [SetPrivateCommitment ''-5'', SetPrivateStartMonth ''-1'', Add])
           [(''SPY'', Fin (3 / 5)), (''TLT'', Fin (2 / 5))]) =
       Some (JArr [JObj [(''commitment'', JNum (Fin (- 5))), (''start_month'', JNum (Fin (- 1)))]])
   \<and> \<not> isPositive (Fin (- 5))
   \<and> \<not> isNonNegative (Fin (- 1))"
proof -
  have pf: "parseFloat ''-5'' = Fin (- 5)" by code_simp
  have pi: "parseInt ''-1'' = Fin (- 1)" by code_simp
  show ?thesis
    by (simp add: handleSimulation_posted default_weights requestBody_def run_def
        addInvestment_def initialState_def investmentObj_def pf pi)
qed

section \<open>The initial capital sent\<close>

text \<open>
  Claim C7, as amended. The \<open>initial_capital\<close> field of every request is
  \<open>parseFloat\<close> of the text last typed into the initial-capital input, unchecked; it
  is the positive number 100000 as long as the default text stands.
\<close>

theorem initial_capital_as_typed:
  "(\<exists>body. posted (snd (handleSimulation rep (run evs))) = [body]
      \<and> getField ''initial_capital'' body = Some (JNum (parseFloat (lastCapital evs))))
   \<and> lastCapital [] = ''100000''
   \<and> parseFloat ''100000'' = Fin 100000
   \<and> isPositive (Fin 100000)"
proof -
  have "parseFloat ''100000'' = Fin 100000" by code_simp
  then show ?thesis
    by (simp add: handleSimulation_posted requestBody_def run_initialCapital lastCapital_def)
qed

text \<open>
  Against claim C7 as stated: with \<open>-5\<close> typed in, the request is sent with an initial
  capital of -5.
\<close>

theorem initial_capital_not_positive:
  "posted (snd (handleSimulation Rejected (run [SetInitialCapital ''-5'']))) =
     [requestBody (run [SetInitialCapital ''-5''])
        [(''SPY'', Fin (3 / 5)), (''TLT'', Fin (2 / 5))]]
   \<and> getField ''initial_capital''
        (requestBody (run [SetInitialCapital ''-5''])
           [(''SPY'', Fin (3 / 5)), (''TLT'', Fin (2 / 5))]) = Some (JNum (Fin (- 5)))
   \<and> \<not> isPositive (Fin (- 5))"
proof -
  have "parseFloat ''-5'' = Fin (- 5)" by code_simp
  then show ?thesis
    by (simp add: handleSimulation_posted default_weights requestBody_def run_def
        initialState_def)
qed

section \<open>A failed request\<close>

text \<open>
  Claim C8. When the request fails, \<open>result\<close> is \<open>null\<close> once \<open>handleSimulation\<close>
  has run, whatever it held before, so the render shows neither metrics nor chart, and
  \<open>loading\<close> is back to false. This holds of a run with nothing in between, and of a
  run during which the user goes on typing, adding, removing and uploading, as long as
  no other call settles in the meantime.
\<close>

theorem simulation_failure_shows_nothing:
  "result (fst (handleSimulation Rejected st)) = JNull
   \<and> loading (fst (handleSimulation Rejected st)) = False
   \<and> \<not> showsResult (fst (handleSimulation Rejected st))
   \<and> (list_all (\<lambda>e. \<not> isSettled e) mid \<longrightarrow>
        result (run (evs @ RunSimulation # mid @ [Settled Rejected])) = JNull
        \<and> loading (run (evs @ RunSimulation # mid @ [Settled Rejected])) = False
        \<and> \<not> showsResult (run (evs @ RunSimulation # mid @ [Settled Rejected])))"
proof (intro conjI impI)
  show "result (fst (handleSimulation Rejected st)) = JNull"
    by (simp add: handleSimulation_def beforeAwait_state afterAwait_def caught_def)
  show "loading (fst (handleSimulation Rejected st)) = False"
    by (simp add: handleSimulation_def beforeAwait_state afterAwait_def caught_def)
  show "\<not> showsResult (fst (handleSimulation Rejected st))"
    by (simp add: handleSimulation_def beforeAwait_state afterAwait_def caught_def
        showsResult_def)
next
  assume mid: "list_all (\<lambda>e. \<not> isSettled e) mid"
  let ?waiting = "foldl step (step (run evs) RunSimulation) mid"
  have "result (step (run evs) RunSimulation) = JNull"
    by (simp add: step_RunSimulation del: step.simps)
  with mid have w: "result ?waiting = JNull"
    by (rule foldl_result_unsettled)
  have r: "run (evs @ RunSimulation # mid @ [Settled Rejected]) = ?waiting\<lparr>loading := False\<rparr>"
    by (simp add: run_interleaved afterAwait_def caught_def del: step.simps)
  show "result (run (evs @ RunSimulation # mid @ [Settled Rejected])) = JNull"
    unfolding r using w by simp
  show "loading (run (evs @ RunSimulation # mid @ [Settled Rejected])) = False"
    unfolding r by simp
  show "\<not> showsResult (run (evs @ RunSimulation # mid @ [Settled Rejected]))"
    unfolding r using w by (simp add: showsResult_def)
qed

text \<open>
  A run that succeeds and shows its result, then a second run that fails while the
  user retypes the initial capital: the earlier result is no longer shown.
\<close>

theorem simulation_failure_shows_nothing_witness:
  "list_all (\<lambda>e. \<not> isSettled e) [SetInitialCapital ''5'']
   \<and> showsResult
       (run [RunSimulation, Settled (Resolved (JObj [(''result'', JObj [(''metrics'', JObj [])])]))])
   \<and> result
       (run ([RunSimulation, Settled (Resolved (JObj [(''result'', JObj [(''metrics'', JObj [])])]))]
             @ RunSimulation # [SetInitialCapital ''5''] @ [Settled Rejected])) = JNull
   \<and> loading
       (run ([RunSimulation, Settled (Resolved (JObj [(''result'', JObj [(''metrics'', JObj [])])]))]
             @ RunSimulation # [SetInitialCapital ''5''] @ [Settled Rejected])) = False
   \<and> \<not> showsResult
       (run ([RunSimulation, Settled (Resolved (JObj [(''result'', JObj [(''metrics'', JObj [])])]))]
             @ RunSimulation # [SetInitialCapital ''5''] @ [Settled Rejected]))"
proof -
  have m: "list_all (\<lambda>e. \<not> isSettled e) [SetInitialCapital ''5'']"
    by simp
  have s: "showsResult
       (run [RunSimulation, Settled (Resolved (JObj [(''result'', JObj [(''metrics'', JObj [])])]))])"
    by (simp add: run_def beforeAwait_state afterAwait_def showsResult_def)
  from simulation_failure_shows_nothing
    [of initialState "[SetInitialCapital ''5'']"
      "[RunSimulation, Settled (Resolved (JObj [(''result'', JObj [(''metrics'', JObj [])])]))]"]
    m s
  show ?thesis by blast
qed

end
